theory Spec2Isabelle
  imports Main "HOL-Library.Word"
begin

section \<open>The counter builtin (src/custom_builtin/counter.c)\<close>

text \<open>
  A loadable bash builtin holding one \<^verbatim>\<open>static long counter_value\<close> and a dispatcher
  \<^verbatim>\<open>counter_builtin\<close> over the words of the command line.

  Conventions of the embedding:
  \<^item> \<^verbatim>\<open>long\<close> is the 64-bit two's-complement integer of the LP64 targets bash loads
    shared objects on. \<^verbatim>\<open>counter_value += value\<close> is the machine addition, which wraps;
    ISO C leaves signed overflow undefined, and the model agrees with ISO C wherever
    ISO C defines the result (lemma \<open>add_no_overflow\<close> below).
  \<^item> A C string is the list of its bytes before the terminating NUL, so
    \<^verbatim>\<open>*p == '\0'\<close> is \<open>p = []\<close> and \<^verbatim>\<open>strcmp(a, b) == 0\<close> is \<open>a = b\<close>.
  \<^item> A \<^verbatim>\<open>WORD_LIST *\<close> is the list of its words; the null list is \<open>[]\<close>.
  \<^item> Standard output and the diagnostics of \<^verbatim>\<open>builtin_error\<close> are kept in the state, each
    as the list of the texts written so far.
\<close>

subsection \<open>Machine integers and the state\<close>

type_synonym long = "64 word"

definition LONG_MAX :: int where
  "LONG_MAX = 2 ^ 63 - 1"

definition LONG_MIN :: int where
  "LONG_MIN = - (2 ^ 63)"

text \<open>The two exit codes of bash's \<^verbatim>\<open>shell.h\<close>, kept symbolic.\<close>

datatype status = EXECUTION_SUCCESS | EXECUTION_FAILURE

text \<open>
  What \<^verbatim>\<open>init_yy_io (get, unget, type, name, location)\<close> stores in bash's
  \<^verbatim>\<open>bash_input\<close>: the two callbacks, the stream type, the name and the location string.
\<close>

datatype stream_type = st_none | st_stdin | st_stream | st_string | st_bstream

datatype sh_cget_func = host_get | jobu_get

datatype sh_cunget_func = host_unget | jobu_unget

record BASH_INPUT =
  input_type :: stream_type
  input_name :: string
  location_string :: string
  getter :: sh_cget_func
  ungetter :: sh_cunget_func

record state =
  counter_value :: long
  stdout :: "string list"
  stderr :: "string list"
  bash_input :: BASH_INPUT

subsection \<open>Library and host functions\<close>

text \<open>\<^verbatim>\<open>isspace\<close> and \<^verbatim>\<open>isdigit\<close> of the C locale.\<close>

definition isspace :: "char \<Rightarrow> bool" where
  "isspace c \<longleftrightarrow> c = CHR '' '' \<or> c = CHR 0x09 \<or> c = CHR 0x0A \<or> c = CHR 0x0B
     \<or> c = CHR 0x0C \<or> c = CHR 0x0D"

definition isdigit :: "char \<Rightarrow> bool" where
  "isdigit c \<longleftrightarrow>
     (of_char CHR ''0'' :: nat) \<le> of_char c \<and> (of_char c :: nat) \<le> of_char CHR ''9''"

definition digit_val :: "char \<Rightarrow> nat" where
  "digit_val c = of_char c - of_char CHR ''0''"

definition decimal :: "string \<Rightarrow> nat" where
  "decimal ds = foldl (\<lambda>acc c. 10 * acc + digit_val c) 0 ds"

text \<open>The optional sign of a subject sequence: whether it is negative, and what follows it.\<close>

fun take_sign :: "string \<Rightarrow> bool \<times> string" where
  "take_sign [] = (False, [])"
| "take_sign (c # cs) =
     (if c = CHR ''-'' then (True, cs)
      else if c = CHR ''+'' then (False, cs)
      else (False, c # cs))"

definition clamp_long :: "int \<Rightarrow> int" where
  "clamp_long v = (if v > LONG_MAX then LONG_MAX else if v < LONG_MIN then LONG_MIN else v)"

text \<open>
  \<^verbatim>\<open>strtol (nptr, &endptr, 10)\<close> of the C library, after ISO C 7.22.1.4: leading white
  space is skipped, then an optional sign, then the longest run of decimal digits is
  converted. The result is the value and the rest of the string \<^verbatim>\<open>endptr\<close> points to. With
  no digit there is no conversion: the value is 0 and \<^verbatim>\<open>endptr\<close> is \<^verbatim>\<open>nptr\<close>. A value out
  of range is \<^verbatim>\<open>LONG_MAX\<close> or \<^verbatim>\<open>LONG_MIN\<close> (and \<^verbatim>\<open>errno\<close> is set, which the caller never
  reads).
\<close>

definition strtol :: "string \<Rightarrow> long \<times> string" where
  "strtol nptr =
     (let (neg, body) = take_sign (dropWhile isspace nptr);
          ds = takeWhile isdigit body;
          endptr = dropWhile isdigit body
      in if ds = [] then (0, nptr)
         else (word_of_int (clamp_long (if neg then - int (decimal ds) else int (decimal ds))),
               endptr))"

text \<open>\<^verbatim>\<open>printf\<close> appends to standard output; \<^verbatim>\<open>fflush (stdout)\<close> writes nothing new.\<close>

definition printf :: "string \<Rightarrow> state \<Rightarrow> state" where
  "printf s st = st\<lparr>stdout := stdout st @ [s]\<rparr>"

definition fflush_stdout :: "state \<Rightarrow> state" where
  "fflush_stdout st = st"

fun dec_digits :: "nat \<Rightarrow> string" where
  "dec_digits n =
     (if n < 10 then [''0123456789'' ! n]
      else dec_digits (n div 10) @ [''0123456789'' ! (n mod 10)])"

declare dec_digits.simps [simp del]

text \<open>The text of \<^verbatim>\<open>printf ("%ld\n", v)\<close>.\<close>

definition fmt_ld :: "long \<Rightarrow> string" where
  "fmt_ld v =
     (if sint v < 0 then CHR ''-'' # dec_digits (nat (- sint v)) else dec_digits (nat (sint v)))
     @ [CHR 0x0A]"

text \<open>
  \<^verbatim>\<open>builtin_error\<close> of bash writes one diagnostic; the state keeps its text after the
  format is expanded. The three diagnostics of the source:
\<close>

definition builtin_error :: "string \<Rightarrow> state \<Rightarrow> state" where
  "builtin_error msg st = st\<lparr>stderr := stderr st @ [msg]\<rparr>"

definition numeric_argument_required :: "string \<Rightarrow> string" where
  "numeric_argument_required str = str @ '': numeric argument required''"

definition set_numeric_argument_required :: string where
  "set_numeric_argument_required = ''set: numeric argument required''"

definition invalid_operation :: "string \<Rightarrow> string" where
  "invalid_operation operation =
     operation @ '': invalid operation (use: inc, dec, set, reset, or get)''"

definition init_yy_io ::
  "sh_cget_func \<Rightarrow> sh_cunget_func \<Rightarrow> stream_type \<Rightarrow> string \<Rightarrow> string \<Rightarrow> state \<Rightarrow> state" where
  "init_yy_io get unget type name location st =
     st\<lparr>bash_input := \<lparr>input_type = type, input_name = name, location_string = location,
                        getter = get, ungetter = unget\<rparr>\<rparr>"

subsection \<open>The source functions\<close>

text \<open>
  \<^verbatim>\<open>parse_number\<close>: \<open>None\<close> is the return value 0, \<open>Some val\<close> is the return value 1 with
  \<^verbatim>\<open>*result = val\<close>. An empty string is refused silently; a string \<^verbatim>\<open>strtol\<close> does not
  consume to its end is refused with a diagnostic. (The words of a \<^verbatim>\<open>WORD_LIST\<close> are never
  null pointers.)
\<close>

definition parse_number :: "string \<Rightarrow> state \<Rightarrow> long option \<times> state" where
  "parse_number str st =
     (if str = [] then (None, st)
      else (let (val, endptr) = strtol str
            in if endptr \<noteq> [] then (None, builtin_error (numeric_argument_required str) st)
               else (Some val, st)))"

text \<open>
  \<^verbatim>\<open>counter_value\<close> is \<^verbatim>\<open>static\<close>: no function outside the file can name it, so
  \<^verbatim>\<open>printf\<close>, \<^verbatim>\<open>builtin_error\<close> and \<^verbatim>\<open>init_yy_io\<close> leave it alone.

  \<^verbatim>\<open>counter_builtin\<close>, branch by branch as in the source. \<open>operation\<close> is
  \<^verbatim>\<open>list->word->word\<close>, \<open>next\<close> is \<^verbatim>\<open>list->next\<close>, and an early
  \<^verbatim>\<open>return (EXECUTION_FAILURE)\<close> is a result that skips the mutation and the
  \<^verbatim>\<open>printf\<close> after it.
\<close>

fun counter_builtin :: "string list \<Rightarrow> state \<Rightarrow> status \<times> state" where
  "counter_builtin [] st =
     (EXECUTION_SUCCESS, fflush_stdout (printf (fmt_ld (counter_value st)) st))"
| "counter_builtin (operation # next) st =
     (if operation = ''setinput'' then
        (EXECUTION_SUCCESS,
         fflush_stdout (printf (''Input set to jobu'' @ [CHR 0x0A])
           (init_yy_io jobu_get jobu_unget st_stdin ''jobu stdin'' '''' st)))
      else if operation = ''inc'' \<or> operation = ''increment'' then
        (case (case next of [] \<Rightarrow> (Some 1, st) | w # _ \<Rightarrow> parse_number w st) of
           (None, st1) \<Rightarrow> (EXECUTION_FAILURE, st1)
         | (Some value, st1) \<Rightarrow>
             (let st2 = st1\<lparr>counter_value := counter_value st1 + value\<rparr>
              in (EXECUTION_SUCCESS, fflush_stdout (printf (fmt_ld (counter_value st2)) st2))))
      else if operation = ''dec'' \<or> operation = ''decrement'' then
        (case (case next of [] \<Rightarrow> (Some 1, st) | w # _ \<Rightarrow> parse_number w st) of
           (None, st1) \<Rightarrow> (EXECUTION_FAILURE, st1)
         | (Some value, st1) \<Rightarrow>
             (let st2 = st1\<lparr>counter_value := counter_value st1 - value\<rparr>
              in (EXECUTION_SUCCESS, fflush_stdout (printf (fmt_ld (counter_value st2)) st2))))
      else if operation = ''set'' then
        (case next of
           [] \<Rightarrow> (EXECUTION_FAILURE, builtin_error set_numeric_argument_required st)
         | w # _ \<Rightarrow>
             (case parse_number w st of
                (None, st1) \<Rightarrow> (EXECUTION_FAILURE, st1)
              | (Some value, st1) \<Rightarrow>
                  (let st2 = st1\<lparr>counter_value := value\<rparr>
                   in (EXECUTION_SUCCESS, fflush_stdout (printf (fmt_ld (counter_value st2)) st2)))))
      else if operation = ''reset'' then
        (let st2 = st\<lparr>counter_value := 0\<rparr>
         in (EXECUTION_SUCCESS, fflush_stdout (printf (fmt_ld (counter_value st2)) st2)))
      else if operation = ''get'' then
        (EXECUTION_SUCCESS, fflush_stdout (printf (fmt_ld (counter_value st)) st))
      else
        (case parse_number operation st of
           (None, st1) \<Rightarrow> (EXECUTION_FAILURE, builtin_error (invalid_operation operation) st1)
         | (Some value, st1) \<Rightarrow>
             (let st2 = st1\<lparr>counter_value := value\<rparr>
              in (EXECUTION_SUCCESS, fflush_stdout (printf (fmt_ld (counter_value st2)) st2)))))"

text \<open>\<^verbatim>\<open>counter_builtin_load\<close> prints its greeting, zeroes the counter and returns 1.\<close>

definition counter_builtin_load :: "state \<Rightarrow> int \<times> state" where
  "counter_builtin_load st =
     (1, (printf (''Counter builtin loaded. Initializing counter to 0.'' @ [CHR 0x0A]) st)
           \<lparr>counter_value := 0\<rparr>)"

text \<open>
  The state a freshly started shell loads the builtin into: the static initialiser of
  \<^verbatim>\<open>counter_value\<close>, nothing written yet, and the shell reading its own standard input.
\<close>

definition startup :: state where
  "startup =
     \<lparr>counter_value = 0, stdout = [], stderr = [],
      bash_input = \<lparr>input_type = st_stdin, input_name = ''stdin'', location_string = [],
                     getter = host_get, ungetter = host_unget\<rparr>\<rparr>"

text \<open>
  The strings \<^verbatim>\<open>strtol\<close> consumes to the end: white space, an optional sign, and one
  or more digits with nothing after them.
\<close>

definition numeric :: "string \<Rightarrow> bool" where
  "numeric s \<longleftrightarrow>
     (let body = snd (take_sign (dropWhile isspace s)) in body \<noteq> [] \<and> list_all isdigit body)"

text \<open>The operation names the dispatcher compares against, \<^verbatim>\<open>setinput\<close> first.\<close>

definition operations :: "string list" where
  "operations =
     [''setinput'', ''inc'', ''increment'', ''dec'', ''decrement'', ''set'', ''reset'', ''get'']"

section \<open>Properties\<close>

subsection \<open>Machine addition where ISO C defines it\<close>

lemma add_no_overflow:
  fixes a b :: long
  assumes "LONG_MIN \<le> sint a + sint b" and "sint a + sint b \<le> LONG_MAX"
  shows "sint (a + b) = sint a + sint b"
  using assms
  by (simp add: sint_word_ariths LONG_MIN_def LONG_MAX_def signed_take_bit_int_eq_self)

lemma sub_no_overflow:
  fixes a b :: long
  assumes "LONG_MIN \<le> sint a - sint b" and "sint a - sint b \<le> LONG_MAX"
  shows "sint (a - b) = sint a - sint b"
  using assms
  by (simp add: sint_word_ariths LONG_MIN_def LONG_MAX_def signed_take_bit_int_eq_self)

subsection \<open>What \<^verbatim>\<open>parse_number\<close> accepts\<close>

lemma numeric_nonempty: "numeric s \<Longrightarrow> s \<noteq> []"
  by (auto simp: numeric_def)

lemma strtol_numeric:
  assumes "numeric s"
  shows "snd (strtol s) = []"
proof (cases "take_sign (dropWhile isspace s)")
  case (Pair neg body)
  with assms have body: "body \<noteq> []" "list_all isdigit body"
    by (simp_all add: numeric_def)
  then have run: "takeWhile isdigit body = body" "dropWhile isdigit body = []"
    by (simp_all add: list_all_iff)
  from Pair body(1) show ?thesis by (simp add: strtol_def Let_def run)
qed

lemma strtol_not_numeric:
  assumes "\<not> numeric s" and "s \<noteq> []"
  shows "snd (strtol s) \<noteq> []"
proof (cases "take_sign (dropWhile isspace s)")
  case (Pair neg body)
  show ?thesis
  proof (cases "takeWhile isdigit body = []")
    case True
    with Pair assms(2) show ?thesis by (simp add: strtol_def)
  next
    case False
    then have "body \<noteq> []" by auto
    with assms(1) Pair have "\<not> list_all isdigit body" by (simp add: numeric_def)
    then have "dropWhile isdigit body \<noteq> []" by (simp add: list_all_iff)
    with Pair False show ?thesis by (simp add: strtol_def Let_def)
  qed
qed

lemma parse_number_empty: "parse_number [] st = (None, st)"
  by (simp add: parse_number_def)

lemma parse_number_numeric:
  "numeric s \<Longrightarrow> parse_number s st = (Some (fst (strtol s)), st)"
  using strtol_numeric [of s] numeric_nonempty [of s]
  by (cases "strtol s") (simp add: parse_number_def)

lemma parse_number_not_numeric:
  "\<not> numeric s \<Longrightarrow> s \<noteq> [] \<Longrightarrow>
   parse_number s st = (None, builtin_error (numeric_argument_required s) st)"
  using strtol_not_numeric [of s]
  by (cases "strtol s") (simp add: parse_number_def)

lemma parse_number_Some_iff:
  "fst (parse_number s st) = Some v \<longleftrightarrow> numeric s \<and> v = fst (strtol s)"
  by (cases "s = []"; cases "numeric s")
     (auto simp: parse_number_empty parse_number_numeric parse_number_not_numeric numeric_nonempty)

lemma parse_number_None_iff: "fst (parse_number s st) = None \<longleftrightarrow> \<not> numeric s"
  by (cases "s = []"; cases "numeric s")
     (auto simp: parse_number_empty parse_number_numeric parse_number_not_numeric numeric_nonempty)

lemma operations_not_numeric: "s \<in> set operations \<Longrightarrow> \<not> numeric s"
  by (auto simp: operations_def numeric_def isspace_def isdigit_def)

lemmas io_defs = printf_def fflush_stdout_def builtin_error_def init_yy_io_def

lemmas eval_defs = strtol_def isspace_def isdigit_def decimal_def digit_val_def clamp_long_def
  LONG_MAX_def LONG_MIN_def numeric_def

lemma parse_number_frame:
  assumes "parse_number w st = (r, st1)"
  shows "counter_value st1 = counter_value st \<and> stdout st1 = stdout st
         \<and> bash_input st1 = bash_input st"
  using assms
  by (cases "strtol w") (auto simp: parse_number_def builtin_error_def split: if_splits)

subsection \<open>Malformed arguments\<close>

text \<open>
  C1 (amended). Let \<open>s\<close> contain a character that is not a digit, other than an optional
  leading sign. Then \<^verbatim>\<open>inc s\<close>, \<^verbatim>\<open>increment s\<close>, \<^verbatim>\<open>dec s\<close>, \<^verbatim>\<open>decrement s\<close> and
  \<^verbatim>\<open>set s\<close> return \<open>EXECUTION_FAILURE\<close>, write the diagnostic
  \<^verbatim>\<open>s: numeric argument required\<close> and change nothing else, the counter in particular,
  unless \<open>s\<close> is white space followed by an optional sign and one or more digits:
  \<^verbatim>\<open>strtol\<close> skips leading white space, so such an \<open>s\<close> is a number to the code.
\<close>

theorem malformed_argument_rejected:
  assumes "\<not> list_all isdigit (snd (take_sign s))"
    and "\<not> numeric s"
    and "operation \<in> {''inc'', ''increment'', ''dec'', ''decrement'', ''set''}"
  shows "counter_builtin (operation # s # rest) st
           = (EXECUTION_FAILURE, builtin_error (numeric_argument_required s) st)
         \<and> counter_value (snd (counter_builtin (operation # s # rest) st)) = counter_value st"
proof -
  from assms(1) have "s \<noteq> []" by auto
  with assms(2) have "parse_number s st = (None, builtin_error (numeric_argument_required s) st)"
    by (simp add: parse_number_not_numeric)
  with assms(3) show ?thesis by (auto simp: builtin_error_def)
qed

text \<open>The scenario \<^verbatim>\<open>inc abc\<close> in a fresh shell.\<close>

theorem malformed_argument_rejected_witness:
  "\<not> list_all isdigit (snd (take_sign ''abc'')) \<and> \<not> numeric ''abc''
   \<and> counter_builtin [''inc'', ''abc''] startup
       = (EXECUTION_FAILURE, startup\<lparr>stderr := [''abc: numeric argument required'']\<rparr>)
   \<and> counter_value (snd (counter_builtin [''inc'', ''abc''] startup)) = 0"
proof -
  have h1: "\<not> list_all isdigit (snd (take_sign ''abc''))" by (simp add: isdigit_def)
  have h2: "\<not> numeric ''abc''" by (simp add: eval_defs)
  have h3: "''inc'' \<in> {''inc'', ''increment'', ''dec'', ''decrement'', ''set''}" by simp
  from malformed_argument_rejected [OF h1 h2 h3, of "[]" startup] h1 h2
  show ?thesis by (simp add: builtin_error_def numeric_argument_required_def startup_def)
qed

text \<open>
  C1 as stated fails: \<^verbatim>\<open>" 5"\<close> holds a space, which is neither a digit nor a leading
  sign, yet \<^verbatim>\<open>inc " 5"\<close> succeeds and moves the counter from 0 to 5.
\<close>

theorem leading_space_argument_counterexample:
  "\<not> list_all isdigit (snd (take_sign '' 5''))
   \<and> counter_builtin [''inc'', '' 5''] startup
       = (EXECUTION_SUCCESS, startup\<lparr>counter_value := 5, stdout := [''5'' @ [CHR 0x0A]]\<rparr>)
   \<and> counter_value startup = 0"
  by (simp add: eval_defs parse_number_def io_defs startup_def fmt_ld_def dec_digits.simps)

subsection \<open>Unknown operations\<close>

text \<open>
  C2 (amended). Let \<open>s\<close> be none of \<^verbatim>\<open>setinput\<close>, \<^verbatim>\<open>inc\<close>, \<^verbatim>\<open>increment\<close>,
  \<^verbatim>\<open>dec\<close>, \<^verbatim>\<open>decrement\<close>, \<^verbatim>\<open>set\<close>, \<^verbatim>\<open>reset\<close>, \<^verbatim>\<open>get\<close>, and let
  \<^verbatim>\<open>parse_number\<close> refuse it. Then the command line holding \<open>s\<close> alone returns
  \<open>EXECUTION_FAILURE\<close>, its last diagnostic is \<^verbatim>\<open>s: invalid operation (...)\<close>, written
  after whatever \<^verbatim>\<open>parse_number\<close> wrote, and neither the counter nor standard output
  changes.
\<close>

theorem unknown_operation_rejected:
  assumes "s \<notin> set operations"
    and "fst (parse_number s st) = None"
  shows "counter_builtin [s] st
           = (EXECUTION_FAILURE, builtin_error (invalid_operation s) (snd (parse_number s st)))
         \<and> last (stderr (snd (counter_builtin [s] st))) = invalid_operation s
         \<and> counter_value (snd (counter_builtin [s] st)) = counter_value st
         \<and> stdout (snd (counter_builtin [s] st)) = stdout st"
proof -
  obtain st1 where pn: "parse_number s st = (None, st1)"
    using assms(2) by (cases "parse_number s st") simp
  from assms(1) pn have run:
    "counter_builtin [s] st = (EXECUTION_FAILURE, builtin_error (invalid_operation s) st1)"
    by (simp add: operations_def)
  from parse_number_frame [OF pn] run pn show ?thesis
    by (simp add: builtin_error_def)
qed

text \<open>The command line \<^verbatim>\<open>counter abc\<close> in a fresh shell: two diagnostics, counter untouched.\<close>

theorem unknown_operation_rejected_witness:
  "''abc'' \<notin> set operations \<and> fst (parse_number ''abc'' startup) = None
   \<and> counter_builtin [''abc''] startup
       = (EXECUTION_FAILURE,
          startup\<lparr>stderr := [''abc: numeric argument required'',
            ''abc: invalid operation (use: inc, dec, set, reset, or get)'']\<rparr>)
   \<and> counter_value (snd (counter_builtin [''abc''] startup)) = counter_value startup"
proof -
  have h1: "''abc'' \<notin> set operations" by (simp add: operations_def)
  have h2: "fst (parse_number ''abc'' startup) = None"
    by (simp add: parse_number_None_iff eval_defs)
  have pn: "parse_number ''abc'' startup
              = (None, builtin_error (numeric_argument_required ''abc'') startup)"
    by (rule parse_number_not_numeric) (simp_all add: eval_defs)
  from unknown_operation_rejected [OF h1 h2]
  have run: "counter_builtin [''abc''] startup
               = (EXECUTION_FAILURE,
                  builtin_error (invalid_operation ''abc'')
                    (builtin_error (numeric_argument_required ''abc'') startup))"
    by (simp only: pn snd_conv)
  have "counter_builtin [''abc''] startup
          = (EXECUTION_FAILURE,
             startup\<lparr>stderr := [''abc: numeric argument required'',
               ''abc: invalid operation (use: inc, dec, set, reset, or get)'']\<rparr>)"
    unfolding run
    by (simp add: builtin_error_def numeric_argument_required_def invalid_operation_def
        startup_def)
  with h1 h2 show ?thesis by simp
qed

text \<open>
  C2 as stated fails: \<^verbatim>\<open>setinput\<close> is not among the seven keywords of the claim and is no
  number, yet \<^verbatim>\<open>counter setinput\<close> succeeds and writes no diagnostic.
\<close>

theorem setinput_counterexample:
  "''setinput'' \<notin> set [''inc'', ''increment'', ''dec'', ''decrement'', ''set'', ''reset'', ''get'']
   \<and> fst (parse_number ''setinput'' startup) = None
   \<and> fst (counter_builtin [''setinput''] startup) = EXECUTION_SUCCESS
   \<and> stderr (snd (counter_builtin [''setinput''] startup)) = []"
  by (simp add: parse_number_None_iff eval_defs io_defs startup_def)

subsection \<open>Failure comes before mutation\<close>

text \<open>
  C3. Whatever the command line and the state, an invocation that returns
  \<open>EXECUTION_FAILURE\<close> (a missing argument of \<^verbatim>\<open>set\<close>, an argument \<^verbatim>\<open>parse_number\<close>
  refuses, an unknown operation) leaves \<^verbatim>\<open>counter_value\<close> as it was.
\<close>

theorem failure_leaves_counter:
  assumes "fst (counter_builtin list st) = EXECUTION_FAILURE"
  shows "counter_value (snd (counter_builtin list st)) = counter_value st"
proof (cases list)
  case Nil
  with assms show ?thesis by simp
next
  case (Cons operation nxt)
  obtain r2 st2 where direct: "parse_number operation st = (r2, st2)"
    by (cases "parse_number operation st")
  note f2 = parse_number_frame [OF direct]
  show ?thesis
  proof (cases nxt)
    case Nil
    with assms Cons direct f2 show ?thesis
      by (cases r2) (auto simp: io_defs split: if_splits)
  next
    case (Cons w ws)
    obtain r1 st1 where arg: "parse_number w st = (r1, st1)"
      by (cases "parse_number w st")
    note f1 = parse_number_frame [OF arg]
    from assms \<open>list = operation # nxt\<close> Cons arg direct f1 f2 show ?thesis
      by (cases r1; cases r2) (auto simp: io_defs split: if_splits)
  qed
qed

text \<open>\<^verbatim>\<open>counter set\<close> in a fresh shell fails.\<close>

theorem failure_leaves_counter_witness:
  "fst (counter_builtin [''set''] startup) = EXECUTION_FAILURE
   \<and> counter_value (snd (counter_builtin [''set''] startup)) = counter_value startup"
proof -
  have h: "fst (counter_builtin [''set''] startup) = EXECUTION_FAILURE" by simp
  from failure_leaves_counter [OF h] h show ?thesis by simp
qed

text \<open>
  C5. \<^verbatim>\<open>counter set\<close> with no argument returns \<open>EXECUTION_FAILURE\<close>, writes
  \<^verbatim>\<open>set: numeric argument required\<close> and leaves the counter at its prior value.
\<close>

theorem set_without_argument:
  "counter_builtin [''set''] st
     = (EXECUTION_FAILURE, builtin_error set_numeric_argument_required st)
   \<and> stderr (snd (counter_builtin [''set''] st)) = stderr st @ [''set: numeric argument required'']
   \<and> counter_value (snd (counter_builtin [''set''] st)) = counter_value st"
  by (simp add: builtin_error_def set_numeric_argument_required_def)

subsection \<open>Defaults and the extra operation\<close>

text \<open>
  C8. In every state \<^verbatim>\<open>inc\<close> (or \<^verbatim>\<open>increment\<close>) with no argument gives the same status
  and the same state, output included, as with the argument \<^verbatim>\<open>1\<close>; likewise \<^verbatim>\<open>dec\<close>
  and \<^verbatim>\<open>decrement\<close>.
\<close>

theorem default_argument_is_one:
  "counter_builtin [''inc''] st = counter_builtin [''inc'', ''1''] st
   \<and> counter_builtin [''increment''] st = counter_builtin [''increment'', ''1''] st
   \<and> counter_builtin [''dec''] st = counter_builtin [''dec'', ''1''] st
   \<and> counter_builtin [''decrement''] st = counter_builtin [''decrement'', ''1''] st"
proof -
  have "parse_number ''1'' st = (Some 1, st)"
    by (simp add: parse_number_def eval_defs)
  then show ?thesis by simp
qed

text \<open>
  C9. A command line whose first word is \<^verbatim>\<open>setinput\<close> returns \<open>EXECUTION_SUCCESS\<close>,
  leaves the counter unchanged and prints the fixed line \<^verbatim>\<open>Input set to jobu\<close>, not the
  counter; it writes no diagnostic.
\<close>

theorem setinput_succeeds:
  "fst (counter_builtin (''setinput'' # rest) st) = EXECUTION_SUCCESS
   \<and> counter_value (snd (counter_builtin (''setinput'' # rest) st)) = counter_value st
   \<and> stdout (snd (counter_builtin (''setinput'' # rest) st))
       = stdout st @ [''Input set to jobu'' @ [CHR 0x0A]]
   \<and> stderr (snd (counter_builtin (''setinput'' # rest) st)) = stderr st"
  by (simp add: io_defs)

subsection \<open>The scenario of the specification\<close>

lemma fmt_ld_samples:
  "fmt_ld 0 = ''0\<newline>''" "fmt_ld 3 = ''3\<newline>''" "fmt_ld 5 = ''5\<newline>''"
  "fmt_ld 100 = ''100\<newline>''"
  by (simp_all add: fmt_ld_def dec_digits.simps)

lemma parse_number_samples:
  "parse_number ''5'' st = (Some 5, st)" "parse_number ''2'' st = (Some 2, st)"
  "parse_number ''100'' st = (Some 100, st)"
  by (simp_all add: parse_number_def eval_defs)

text \<open>
  C4. From a counter of 0, the commands \<^verbatim>\<open>inc 5\<close>, \<^verbatim>\<open>dec 2\<close>, \<^verbatim>\<open>set 100\<close>,
  \<^verbatim>\<open>reset\<close> and the bare query all return \<open>EXECUTION_SUCCESS\<close>, leave the counter at
  5, 3, 100, 0 and 0 in turn, and print exactly these values, one per line; no diagnostic
  is written.
\<close>

theorem scenario_from_zero:
  assumes "counter_value st = 0"
  shows "(let (r1, s1) = counter_builtin [''inc'', ''5''] st;
              (r2, s2) = counter_builtin [''dec'', ''2''] s1;
              (r3, s3) = counter_builtin [''set'', ''100''] s2;
              (r4, s4) = counter_builtin [''reset''] s3;
              (r5, s5) = counter_builtin [] s4
          in [r1, r2, r3, r4, r5] = replicate 5 EXECUTION_SUCCESS
             \<and> map counter_value [s1, s2, s3, s4, s5] = [5, 3, 100, 0, 0]
             \<and> stdout s5
                 = stdout st @ [''5\<newline>'', ''3\<newline>'', ''100\<newline>'', ''0\<newline>'', ''0\<newline>'']
             \<and> stderr s5 = stderr st)"
  using assms
  by (simp add: parse_number_samples io_defs fmt_ld_samples numeral_eq_Suc)

text \<open>The five commands in a fresh shell.\<close>

theorem scenario_from_zero_witness:
  "counter_value startup = 0
   \<and> snd (counter_builtin []
        (snd (counter_builtin [''reset'']
          (snd (counter_builtin [''set'', ''100'']
            (snd (counter_builtin [''dec'', ''2'']
              (snd (counter_builtin [''inc'', ''5''] startup)))))))))
       = startup\<lparr>stdout := [''5\<newline>'', ''3\<newline>'', ''100\<newline>'', ''0\<newline>'', ''0\<newline>'']\<rparr>"
proof -
  have h: "counter_value startup = 0" by (simp add: startup_def)
  from scenario_from_zero [OF h] h show ?thesis
    by (simp add: parse_number_samples io_defs fmt_ld_samples startup_def split: prod.splits)
qed

subsection \<open>Algebraic properties\<close>

text \<open>
  C6. If \<^verbatim>\<open>parse_number\<close> accepts \<open>s\<close> with value \<open>n\<close>, then from any counter value
  \<^verbatim>\<open>inc s\<close> (or \<^verbatim>\<open>increment s\<close>) followed by \<^verbatim>\<open>dec s\<close> (or \<^verbatim>\<open>decrement s\<close>) both
  succeed, the first adds \<open>n\<close>, and the second brings the counter back to its starting
  value. The additions are the machine's, so this holds across wrap-around as well.
\<close>

theorem increment_then_decrement:
  assumes "fst (parse_number s st) = Some n"
    and "inc_op \<in> {''inc'', ''increment''}"
    and "dec_op \<in> {''dec'', ''decrement''}"
  shows "(let (r1, s1) = counter_builtin [inc_op, s] st;
              (r2, s2) = counter_builtin [dec_op, s] s1
          in r1 = EXECUTION_SUCCESS \<and> r2 = EXECUTION_SUCCESS
             \<and> counter_value s1 = counter_value st + n
             \<and> counter_value s2 = counter_value st)"
proof -
  from assms(1) have "numeric s" and "n = fst (strtol s)"
    by (simp_all add: parse_number_Some_iff)
  then have "\<And>st'. parse_number s st' = (Some n, st')"
    by (simp add: parse_number_numeric)
  with assms(2,3) show ?thesis
    by (auto simp: io_defs)
qed

text \<open>\<^verbatim>\<open>inc -7\<close> then \<^verbatim>\<open>dec -7\<close> in a fresh shell.\<close>

theorem increment_then_decrement_witness:
  "fst (parse_number ''-7'' startup) = Some (- 7)
   \<and> counter_value (snd (counter_builtin [''inc'', ''-7''] startup)) = - 7
   \<and> counter_value (snd (counter_builtin [''dec'', ''-7'']
        (snd (counter_builtin [''inc'', ''-7''] startup)))) = counter_value startup"
proof -
  have h1: "fst (parse_number ''-7'' startup) = Some (- 7)"
    by (simp add: parse_number_def eval_defs)
  have h2: "''inc'' \<in> {''inc'', ''increment''}" and h3: "''dec'' \<in> {''dec'', ''decrement''}"
    by simp_all
  from increment_then_decrement [OF h1 h2 h3] h1 show ?thesis
    by (simp add: startup_def split: prod.splits)
qed

text \<open>
  C7. If \<^verbatim>\<open>parse_number\<close> accepts the word \<open>t\<close> with value \<open>n\<close>, the command line
  \<open>t\<close> alone gives the same status and the same state, output included, as
  \<^verbatim>\<open>set t\<close>: success, the counter at \<open>n\<close>, and \<open>n\<close> printed.
\<close>

theorem bare_literal_is_set:
  assumes "fst (parse_number t st) = Some n"
  shows "counter_builtin [t] st = counter_builtin [''set'', t] st
         \<and> counter_builtin [t] st
             = (EXECUTION_SUCCESS, printf (fmt_ld n) (st\<lparr>counter_value := n\<rparr>))"
proof -
  from assms have num: "numeric t" and "n = fst (strtol t)"
    by (simp_all add: parse_number_Some_iff)
  then have pn: "parse_number t st = (Some n, st)"
    by (simp add: parse_number_numeric)
  from num have "t \<notin> set operations"
    using operations_not_numeric by blast
  with pn show ?thesis
    by (simp add: operations_def io_defs)
qed

text \<open>The command line \<^verbatim>\<open>counter 5\<close> in a fresh shell.\<close>

theorem bare_literal_is_set_witness:
  "fst (parse_number ''5'' startup) = Some 5
   \<and> counter_builtin [''5''] startup = counter_builtin [''set'', ''5''] startup
   \<and> counter_builtin [''5''] startup
       = (EXECUTION_SUCCESS, startup\<lparr>counter_value := 5, stdout := [''5\<newline>'']\<rparr>)"
proof -
  have h: "fst (parse_number ''5'' startup) = Some 5"
    by (simp add: parse_number_samples)
  from bare_literal_is_set [OF h] h show ?thesis
    by (simp add: parse_number_samples printf_def fmt_ld_samples startup_def)
qed

subsection \<open>Arguments beyond the range of \<^verbatim>\<open>long\<close>\<close>

lemma isdigit_not_space_sign:
  "isdigit c \<Longrightarrow> \<not> isspace c \<and> c \<noteq> CHR ''-'' \<and> c \<noteq> CHR ''+''"
  by (auto simp: isdigit_def isspace_def)

lemma strtol_signed_digits:
  assumes "ds \<noteq> []" and "list_all isdigit ds" and "sg \<in> {[], ''+'', ''-''}"
  shows "strtol (sg @ ds)
           = (word_of_int (clamp_long (if sg = ''-'' then - int (decimal ds) else int (decimal ds))),
              [])"
proof -
  from assms(1) obtain d ds' where ds: "ds = d # ds'" by (cases ds) auto
  with assms(2) have "isdigit d" by simp
  note d = isdigit_not_space_sign [OF this]
  from assms(2) have run: "takeWhile isdigit ds = ds" "dropWhile isdigit ds = []"
    by (simp_all add: list_all_iff)
  from assms(3) d have sign: "take_sign (dropWhile isspace (sg @ ds)) = (sg = ''-'', ds)"
    by (auto simp: ds isspace_def)
  from assms(1) show ?thesis
    by (simp add: strtol_def sign run Let_def)
qed

text \<open>
  C10. Let the argument be an optional sign \<open>sg\<close> and one or more digits \<open>ds\<close> whose
  value \<open>v\<close> lies outside the range of \<^verbatim>\<open>long\<close>. \<^verbatim>\<open>parse_number\<close> accepts it without
  a diagnostic, with the value \<^verbatim>\<open>LONG_MAX\<close> when \<open>v\<close> is too large and \<^verbatim>\<open>LONG_MIN\<close> when
  it is too small, and \<^verbatim>\<open>set\<close>, \<^verbatim>\<open>inc\<close> and \<^verbatim>\<open>dec\<close> succeed with that value.
\<close>

theorem out_of_range_argument_saturates:
  assumes "ds \<noteq> []" and "list_all isdigit ds" and "sg \<in> {[], ''+'', ''-''}"
    and "v = (if sg = ''-'' then - int (decimal ds) else int (decimal ds))"
    and "LONG_MAX < v \<or> v < LONG_MIN"
    and "c = (word_of_int (if LONG_MAX < v then LONG_MAX else LONG_MIN) :: long)"
  shows "parse_number (sg @ ds) st = (Some c, st)
         \<and> sint c = (if LONG_MAX < v then LONG_MAX else LONG_MIN)
         \<and> counter_builtin [''set'', sg @ ds] st
             = (EXECUTION_SUCCESS, printf (fmt_ld c) (st\<lparr>counter_value := c\<rparr>))
         \<and> counter_builtin [''inc'', sg @ ds] st
             = (EXECUTION_SUCCESS,
                printf (fmt_ld (counter_value st + c)) (st\<lparr>counter_value := counter_value st + c\<rparr>))
         \<and> counter_builtin [''dec'', sg @ ds] st
             = (EXECUTION_SUCCESS,
                printf (fmt_ld (counter_value st - c)) (st\<lparr>counter_value := counter_value st - c\<rparr>))"
proof -
  from assms(5,6) have c: "c = word_of_int (clamp_long v)"
    by (auto simp: clamp_long_def LONG_MAX_def LONG_MIN_def)
  from assms(1) have "sg @ ds \<noteq> []" by simp
  with strtol_signed_digits [OF assms(1-3)] assms(4) c
  have pn: "parse_number (sg @ ds) st = (Some c, st)"
    by (simp add: parse_number_def)
  have "sint (word_of_int LONG_MAX :: long) = LONG_MAX"
    and "sint (word_of_int LONG_MIN :: long) = LONG_MIN"
    by (simp_all add: LONG_MAX_def LONG_MIN_def)
  with assms(6) have clamp: "sint c = (if LONG_MAX < v then LONG_MAX else LONG_MIN)"
    by simp
  from pn clamp show ?thesis
    by (simp add: io_defs)
qed

text \<open>\<^verbatim>\<open>set 9223372036854775808\<close>, one above \<^verbatim>\<open>LONG_MAX\<close>, in a fresh shell.\<close>

theorem out_of_range_argument_saturates_witness:
  "LONG_MAX < int (decimal ''9223372036854775808'')
   \<and> parse_number ''9223372036854775808'' startup = (Some 9223372036854775807, startup)
   \<and> counter_builtin [''set'', ''9223372036854775808''] startup
       = (EXECUTION_SUCCESS,
          startup\<lparr>counter_value := 9223372036854775807,
            stdout := [''9223372036854775807\<newline>'']\<rparr>)"
proof -
  let ?ds = "''9223372036854775808''"
  have h1: "?ds \<noteq> []" and h2: "list_all isdigit ?ds" and h3: "[] \<in> {[], ''+'', ''-''}"
    by (simp_all add: isdigit_def)
  have h4: "int (decimal ?ds) = (if [] = ''-'' then - int (decimal ?ds) else int (decimal ?ds))"
    by simp
  have big: "LONG_MAX < int (decimal ?ds)"
    by (simp add: LONG_MAX_def decimal_def digit_val_def)
  then have h5: "LONG_MAX < int (decimal ?ds) \<or> int (decimal ?ds) < LONG_MIN" ..
  have h6: "(9223372036854775807 :: long)
              = word_of_int (if LONG_MAX < int (decimal ?ds) then LONG_MAX else LONG_MIN)"
    using big by (simp add: LONG_MAX_def)
  have out: "fmt_ld 9223372036854775807 = ''9223372036854775807\<newline>''"
    by (simp add: fmt_ld_def dec_digits.simps)
  note r = out_of_range_argument_saturates [OF h1 h2 h3 h4 h5 h6, of startup,
      simplified append_Nil]
  from r have p: "parse_number ?ds startup = (Some 9223372036854775807, startup)"
    by (rule conjunct1)
  from r have s: "counter_builtin [''set'', ?ds] startup
                    = (EXECUTION_SUCCESS,
                       printf (fmt_ld 9223372036854775807)
                         (startup\<lparr>counter_value := 9223372036854775807\<rparr>))"
    by blast
  show ?thesis
    unfolding p s by (simp add: big printf_def out startup_def)
qed

end
